theory Spec2Isabelle
  imports Complex_Main "HOL-Library.Word"
begin

section \<open>Calibration of raw samples (DS1104ZPLUS.py, lines 58 to 62)\<close>

text \<open>
  A raw sample is one unsigned byte (\<^verbatim>\<open>np.frombuffer(raw_bytes, dtype=np.uint8)\<close>).
  Python floats are modelled as exact reals: rounding, \<^verbatim>\<open>nan\<close> and \<^verbatim>\<open>inf\<close> are
  outside the model.
\<close>

type_synonym u8 = "8 word"

text \<open>
  \<^verbatim>\<open>np.mean(byte_array)\<close>. On an empty array numpy returns \<^verbatim>\<open>nan\<close> with a warning and
  raises nothing; the model writes 0 there. The value is then broadcast over no element.
\<close>

definition np_mean :: "u8 list \<Rightarrow> real" where
  "np_mean byte_array =
     (if byte_array = [] then 0
      else real (sum_list (map unat byte_array)) / real (length byte_array))"

text \<open>
  \<^verbatim>\<open>
  byte_array = np.frombuffer(raw_bytes, dtype=np.uint8)
  y_data = (byte_array - np.mean(byte_array)) * y_increment
  time_axis = np.arange(len(y_data)) * x_increment + x_origin
  \<close>
  The result is the pair \<open>(time_axis, y_data)\<close>.
\<close>

definition calibrate :: "u8 list \<Rightarrow> real \<Rightarrow> real \<Rightarrow> real \<Rightarrow> real list \<times> real list" where
  "calibrate raw_bytes y_increment x_increment x_origin =
     (let byte_array = raw_bytes;
          y_data = map (\<lambda>b. (real (unat b) - np_mean byte_array) * y_increment) byte_array;
          time_axis = map (\<lambda>i. real i * x_increment + x_origin) [0..<length y_data]
      in (time_axis, y_data))"

section \<open>The same calibration in double precision\<close>





section \<open>Python values the code relies on\<close>

text \<open>
  Every exception the modelled code can meet is a value. \<^verbatim>\<open>UnicodeDecodeError\<close> and
  \<^verbatim>\<open>json.JSONDecodeError\<close> are subclasses of \<^verbatim>\<open>ValueError\<close> and are modelled by it;
  \<^verbatim>\<open>FileNotFoundError\<close> carries its message.
\<close>

datatype py_error =
    VisaIOError
  | ValueError
  | IndexError
  | KeyError
  | TypeError
  | FileNotFoundError string

text \<open>
  The builtins \<^verbatim>\<open>int(bytes)\<close>, \<^verbatim>\<open>int(str)\<close>, \<^verbatim>\<open>float(str)\<close> and \<^verbatim>\<open>bytes.decode('utf-8')\<close>
  belong to the interpreter, not to the repository. They are parameters of the model:
  \<open>None\<close> stands for the \<^verbatim>\<open>ValueError\<close> the builtin raises. Text is a \<open>string\<close>.
\<close>

record builtins =
  int_of_bytes :: "u8 list \<Rightarrow> int option"
  int_of_str :: "string \<Rightarrow> int option"
  float_of_str :: "string \<Rightarrow> real option"
  decode_utf8 :: "u8 list \<Rightarrow> string option"

text \<open>Sequencing of steps that may raise: the first error ends the computation.\<close>

definition or_raise :: "'a option \<Rightarrow> py_error \<Rightarrow> py_error + 'a" where
  "or_raise v e = (case v of None \<Rightarrow> Inl e | Some a \<Rightarrow> Inr a)"

definition bind_result :: "py_error + 'a \<Rightarrow> ('a \<Rightarrow> py_error + 'b) \<Rightarrow> py_error + 'b" where
  "bind_result r f = (case r of Inl e \<Rightarrow> Inl e | Inr a \<Rightarrow> f a)"

text \<open>\<^verbatim>\<open>s.split(sep)\<close> for a one-character separator: there is always at least one field.\<close>

fun py_split :: "char \<Rightarrow> string \<Rightarrow> string list" where
  "py_split sep [] = [[]]"
| "py_split sep (c # cs) =
     (if c = sep then [] # py_split sep cs
      else (case py_split sep cs of
              [] \<Rightarrow> [[c]]
            | f # fs \<Rightarrow> (c # f) # fs))"

text \<open>\<^verbatim>\<open>xs[i]\<close> for an index that is not negative: out of range raises \<^verbatim>\<open>IndexError\<close>.\<close>

definition py_index :: "'a list \<Rightarrow> nat \<Rightarrow> py_error + 'a" where
  "py_index xs i = (if i < length xs then Inr (xs ! i) else Inl IndexError)"

text \<open>
  \<^verbatim>\<open>xs[i:j]\<close>: a negative bound counts from the end, and both bounds are clipped to the
  sequence; a slice never raises.
\<close>

definition py_slice :: "'a list \<Rightarrow> int \<Rightarrow> int \<Rightarrow> 'a list" where
  "py_slice xs i j =
     (let n = int (length xs);
          lo = (if i < 0 then max 0 (n + i) else min i n);
          hi = (if j < 0 then max 0 (n + j) else min j n)
      in take (nat hi - nat lo) (drop (nat lo) xs))"

section \<open>The instrument link (pyvisa, outside the repository)\<close>

text \<open>
  The pyvisa resource behind \<^verbatim>\<open>self.inst\<close> is an external collaborator. The model keeps
  its \<open>timeout\<close> and \<open>encoding\<close> attributes, records every call made on it, and takes
  the link's behaviour from a script: each call consumes the next scripted outcome, which
  either raises or returns bytes (a write ignores them). A script that has run out is a
  timeout, that is a \<^verbatim>\<open>VisaIOError\<close>. The number of bytes a read returns is whatever the
  script says: the link may deliver fewer bytes than were asked for.
\<close>

datatype call = Write string | Read | ReadRaw int

datatype outcome = Raises py_error | Returns "u8 list"

record visa =
  timeout :: int
  encoding :: string
  calls :: "call list"
  script :: "outcome list"

definition visa_call :: "call \<Rightarrow> visa \<Rightarrow> (py_error + u8 list) \<times> visa" where
  "visa_call c r =
     (case script r of
        [] \<Rightarrow> (Inl VisaIOError, r\<lparr>calls := calls r @ [c]\<rparr>)
      | Raises e # rest \<Rightarrow> (Inl e, r\<lparr>calls := calls r @ [c], script := rest\<rparr>)
      | Returns bs # rest \<Rightarrow> (Inr bs, r\<lparr>calls := calls r @ [c], script := rest\<rparr>))"

text \<open>\<^verbatim>\<open>inst.write(command)\<close>\<close>

definition visa_write :: "string \<Rightarrow> visa \<Rightarrow> (py_error + unit) \<times> visa" where
  "visa_write command r =
     (case visa_call (Write command) r of
        (Inl e, r') \<Rightarrow> (Inl e, r')
      | (Inr bs, r') \<Rightarrow> (Inr (), r'))"

text \<open>\<^verbatim>\<open>inst.read_raw(n)\<close>\<close>

definition visa_read_raw :: "int \<Rightarrow> visa \<Rightarrow> (py_error + u8 list) \<times> visa" where
  "visa_read_raw n r = visa_call (ReadRaw n) r"

text \<open>
  \<^verbatim>\<open>inst.read()\<close>: the bytes received, as text. Text is modelled by its bytes; a reply
  that pyvisa cannot decode is a scripted \<open>Raises ValueError\<close>.
\<close>

definition visa_read :: "visa \<Rightarrow> (py_error + string) \<times> visa" where
  "visa_read r =
     (case visa_call Read r of
        (Inl e, r') \<Rightarrow> (Inl e, r')
      | (Inr bs, r') \<Rightarrow> (Inr (map (\<lambda>b. char_of (unat b)) bs), r'))"

text \<open>\<^verbatim>\<open>inst.query(command)\<close> is pyvisa's write followed by its read.\<close>

definition visa_query :: "string \<Rightarrow> visa \<Rightarrow> (py_error + string) \<times> visa" where
  "visa_query command r =
     (case visa_write command r of
        (Inl e, r') \<Rightarrow> (Inl e, r')
      | (Inr u, r') \<Rightarrow> visa_read r')"

section \<open>The instrument wrapper (RIGOL.py)\<close>

text \<open>
  A \<^verbatim>\<open>RigolInstrument\<close> object. Methods take the object and return it updated, next to
  their result or the exception they raise. \<^verbatim>\<open>time.sleep\<close> and \<^verbatim>\<open>print\<close> have no effect on
  the modelled state and are left out.
\<close>

record rigol =
  verbose :: int
  inst :: visa
  idn :: string
  instrument_type :: string

definition andthen ::
  "('s \<Rightarrow> (py_error + 'a) \<times> 's) \<Rightarrow> ('a \<Rightarrow> 's \<Rightarrow> (py_error + 'b) \<times> 's) \<Rightarrow>
   's \<Rightarrow> (py_error + 'b) \<times> 's" where
  "andthen m f s = (case m s of (Inl e, s') \<Rightarrow> (Inl e, s') | (Inr a, s') \<Rightarrow> f a s')"

definition lift_result :: "py_error + 'a \<Rightarrow> 's \<Rightarrow> (py_error + 'a) \<times> 's" where
  "lift_result r s = (r, s)"

text \<open>Running a method of the pyvisa resource held in \<^verbatim>\<open>self.inst\<close>.\<close>

definition on_inst :: "(visa \<Rightarrow> (py_error + 'a) \<times> visa) \<Rightarrow> rigol \<Rightarrow> (py_error + 'a) \<times> rigol" where
  "on_inst m self = (case m (inst self) of (res, r') \<Rightarrow> (res, self\<lparr>inst := r'\<rparr>))"

text \<open>\<^verbatim>\<open>str.strip()\<close> and \<^verbatim>\<open>str.upper()\<close>, on ASCII text.\<close>

definition is_space :: "char \<Rightarrow> bool" where
  "is_space c = (c \<in> set [CHR '' '', CHR 0x09, CHR 0x0A, CHR 0x0B, CHR 0x0C, CHR 0x0D,
                            CHR 0x1C, CHR 0x1D, CHR 0x1E, CHR 0x1F])"

definition py_strip :: "string \<Rightarrow> string" where
  "py_strip s = rev (dropWhile is_space (rev (dropWhile is_space s)))"

definition upper_char :: "char \<Rightarrow> char" where
  "upper_char c =
     (if 97 \<le> (of_char c :: nat) \<and> (of_char c :: nat) \<le> 122
      then char_of ((of_char c :: nat) - 32) else c)"

definition py_upper :: "string \<Rightarrow> string" where
  "py_upper s = map upper_char s"

text \<open>\<^verbatim>\<open>sub in s\<close> on strings: \<open>sub\<close> occurs in \<open>s\<close> as a contiguous piece.\<close>

fun py_in :: "string \<Rightarrow> string \<Rightarrow> bool" where
  "py_in sub [] = (sub = [])"
| "py_in sub (c # cs) = (take (length sub) (c # cs) = sub \<or> py_in sub cs)"

text \<open>
  The body of the \<^verbatim>\<open>try\<close> in \<^verbatim>\<open>get_idn\<close>:
  \<^verbatim>\<open>
  self.inst.write('*IDN?')
  time.sleep(0.1)
  return self.inst.read().strip()
  \<close>
\<close>

definition idn_query :: "rigol \<Rightarrow> (py_error + string) \<times> rigol" where
  "idn_query =
     andthen (on_inst (visa_write ''*IDN?'')) (\<lambda>u.
     andthen (on_inst visa_read) (\<lambda>reply.
     lift_result (Inr (py_strip reply))))"

text \<open>
  \<^verbatim>\<open>get_idn\<close>: only \<^verbatim>\<open>pyvisa.errors.VisaIOError\<close> is caught, and then the result is the
  literal \<^verbatim>\<open>"Unknown"\<close>; any other exception goes on to the caller.
\<close>

definition get_idn :: "rigol \<Rightarrow> (py_error + string) \<times> rigol" where
  "get_idn self =
     (case idn_query self of
        (Inl VisaIOError, self') \<Rightarrow> (Inr ''Unknown'', self')
      | (Inl e, self') \<Rightarrow> (Inl e, self')
      | (Inr s, self') \<Rightarrow> (Inr s, self'))"

definition classify_instrument :: "rigol \<Rightarrow> string" where
  "classify_instrument self =
     (let idn_upper = py_upper (idn self) in
      if py_in ''RIGOL'' idn_upper \<and> py_in ''DG'' idn_upper then ''generator''
      else if py_in ''RIGOL'' idn_upper \<and> (py_in ''DS'' idn_upper \<or> py_in ''MSO'' idn_upper)
      then ''oscilloscope''
      else ''unknown'')"

text \<open>
  \<^verbatim>\<open>__init__\<close>. \<^verbatim>\<open>pyvisa.ResourceManager("@py").open_resource(resource_name)\<close> is modelled by
  a table of the resources that can be opened; a name that is not there raises
  \<^verbatim>\<open>VisaIOError\<close>. The attributes \<open>idn\<close> and \<open>instrument_type\<close> do not exist before
  they are assigned: the model starts them empty.
\<close>

definition RigolInstrument :: "(string \<rightharpoonup> visa) \<Rightarrow> string \<Rightarrow> int \<Rightarrow> py_error + rigol" where
  "RigolInstrument resources resource_name verb =
     (case resources resource_name of
        None \<Rightarrow> Inl VisaIOError
      | Some r \<Rightarrow>
          (let self = \<lparr>verbose = verb, inst = r, idn = [], instrument_type = []\<rparr>;
               self = self\<lparr>inst := (inst self)\<lparr>timeout := 5000\<rparr>\<rparr>;
               self = self\<lparr>inst := (inst self)\<lparr>encoding := ''utf-8''\<rparr>\<rparr>
           in case get_idn self of
                (Inl e, self') \<Rightarrow> Inl e
              | (Inr s, self') \<Rightarrow>
                  (let self = self'\<lparr>idn := s\<rparr>;
                       self = self\<lparr>instrument_type := classify_instrument self\<rparr>
                   in Inr self)))"

text \<open>\<^verbatim>\<open>write\<close> and \<^verbatim>\<open>query\<close> pass the command on to the resource.\<close>

definition rigol_write :: "string \<Rightarrow> rigol \<Rightarrow> (py_error + unit) \<times> rigol" where
  "rigol_write command = on_inst (visa_write command)"

definition rigol_query :: "string \<Rightarrow> rigol \<Rightarrow> (py_error + string) \<times> rigol" where
  "rigol_query command = on_inst (visa_query command)"

section \<open>Waveform capture (DS1104ZPLUS.py, capture_waveform)\<close>

text \<open>The dictionary \<^verbatim>\<open>preamble_dict\<close> that the capture returns, with its six keys.\<close>

record preamble =
  points :: int
  x_increment :: real
  x_origin :: real
  y_increment :: real
  y_origin :: real
  y_reference :: int

text \<open>\<^verbatim>\<open>int(preamble_values[i])\<close> and \<^verbatim>\<open>float(preamble_values[i])\<close>.\<close>

definition int_field :: "builtins \<Rightarrow> string list \<Rightarrow> nat \<Rightarrow> py_error + int" where
  "int_field py preamble_values i =
     bind_result (py_index preamble_values i) (\<lambda>f. or_raise (int_of_str py f) ValueError)"

definition float_field :: "builtins \<Rightarrow> string list \<Rightarrow> nat \<Rightarrow> py_error + real" where
  "float_field py preamble_values i =
     bind_result (py_index preamble_values i) (\<lambda>f. or_raise (float_of_str py f) ValueError)"

text \<open>
  Lines 18 to 25, from the reply to \<^verbatim>\<open>:WAV:PRE?\<close> to the six values:
  \<^verbatim>\<open>
  preamble_values = preamble.split(',')
  points = int(preamble_values[2])
  x_increment = float(preamble_values[4])
  x_origin = float(preamble_values[5])
  y_increment = float(preamble_values[7])
  y_origin = float(preamble_values[8])
  y_reference = int(preamble_values[9])
  \<close>
\<close>

definition parse_preamble :: "builtins \<Rightarrow> string \<Rightarrow> py_error + preamble" where
  "parse_preamble py reply =
     (let preamble_values = py_split CHR '','' reply in
      bind_result (int_field py preamble_values 2) (\<lambda>pts.
      bind_result (float_field py preamble_values 4) (\<lambda>x_inc.
      bind_result (float_field py preamble_values 5) (\<lambda>x_org.
      bind_result (float_field py preamble_values 7) (\<lambda>y_inc.
      bind_result (float_field py preamble_values 8) (\<lambda>y_org.
      bind_result (int_field py preamble_values 9) (\<lambda>y_ref.
      Inr \<lparr>points = pts, x_increment = x_inc, x_origin = x_org,
           y_increment = y_inc, y_origin = y_org, y_reference = y_ref\<rparr>)))))))"

text \<open>
  Lines 47 to 49, from the header bytes to the declared payload length:
  \<^verbatim>\<open>
  num_digits = int(header[1:2])
  data_length_str = header[2:2+num_digits].decode('utf-8')
  data_length = int(data_length_str)
  \<close>
\<close>

definition header_length :: "builtins \<Rightarrow> u8 list \<Rightarrow> py_error + int" where
  "header_length py header =
     bind_result (or_raise (int_of_bytes py (py_slice header 1 2)) ValueError) (\<lambda>num_digits.
     bind_result (or_raise (decode_utf8 py (py_slice header 2 (2 + num_digits))) ValueError)
       (\<lambda>data_length_str.
     or_raise (int_of_str py data_length_str) ValueError))"

text \<open>
  Lines 41 to 54, the block transfer: a read of 11 bytes for the header, the check of the
  marker \<^verbatim>\<open>b'#'\<close>, the declared length, and a second read for the samples.
  \<^verbatim>\<open>
  header = osc.inst.read_raw(11)
  if header[0:1] != b'#':
      raise ValueError(f"Expected IEEE header starting with '#', got {header}")
  ...
  raw_bytes = osc.inst.read_raw(data_length)
  \<close>
\<close>

definition read_block :: "builtins \<Rightarrow> rigol \<Rightarrow> (py_error + u8 list) \<times> rigol" where
  "read_block py =
     andthen (on_inst (visa_read_raw 11)) (\<lambda>header.
     if py_slice header 0 1 \<noteq> [0x23] then lift_result (Inl ValueError)
     else
     andthen (lift_result (header_length py header)) (\<lambda>data_length.
     on_inst (visa_read_raw data_length)))"

text \<open>\<^verbatim>\<open>try: body finally: osc.inst.timeout = original_timeout\<close>\<close>

definition set_timeout :: "int \<Rightarrow> rigol \<Rightarrow> rigol" where
  "set_timeout t osc = osc\<lparr>inst := (inst osc)\<lparr>timeout := t\<rparr>\<rparr>"

definition try_finally ::
  "('s \<Rightarrow> (py_error + 'a) \<times> 's) \<Rightarrow> ('s \<Rightarrow> 's) \<Rightarrow> 's \<Rightarrow> (py_error + 'a) \<times> 's" where
  "try_finally body cleanup s = (case body s of (res, s') \<Rightarrow> (res, cleanup s'))"

text \<open>
  \<^verbatim>\<open>capture_waveform(osc, channel)\<close>: three configuration commands, the preamble query
  and its parsing, the data query, then under a timeout of 30000 the block transfer and
  the calibration. The result is \<open>(time_axis, y_data, preamble_dict)\<close>.
\<close>

definition capture_waveform ::
  "builtins \<Rightarrow> rigol \<Rightarrow> string \<Rightarrow> (py_error + real list \<times> real list \<times> preamble) \<times> rigol" where
  "capture_waveform py osc channel =
     (andthen (rigol_write ('':WAV:SOUR '' @ channel)) (\<lambda>u.
      andthen (rigol_write '':WAV:MODE NORM'') (\<lambda>u.
      andthen (rigol_write '':WAV:FORM BYTE'') (\<lambda>u.
      andthen (rigol_query '':WAV:PRE?'') (\<lambda>reply.
      andthen (lift_result (parse_preamble py reply)) (\<lambda>p.
      andthen (rigol_write '':WAV:DATA?'') (\<lambda>u osc.
        let original_timeout = timeout (inst osc);
            osc = set_timeout 30000 osc
        in try_finally
             (andthen (read_block py) (\<lambda>raw_bytes.
                let (time_axis, y_data) =
                      calibrate raw_bytes (y_increment p) (x_increment p) (x_origin p)
                in lift_result (Inr (time_axis, y_data, p))))
             (set_timeout original_timeout) osc))))))) osc"

section \<open>Saving and loading a capture (DS1104ZPLUS.py, lines 85 to 182)\<close>

subsection \<open>Paths\<close>

text \<open>
  A \<^verbatim>\<open>pathlib.Path\<close> (POSIX flavour): its anchor (\<^verbatim>\<open>''\<close> or \<^verbatim>\<open>'/'\<close>) and its components.
  The functions below take the path as \<^verbatim>\<open>Path(filepath)\<close> has built it.
\<close>

record pure_path =
  anchor :: string
  parts :: "string list"

text \<open>\<^verbatim>\<open>str(path)\<close>\<close>

fun join_parts :: "string list \<Rightarrow> string" where
  "join_parts [] = []"
| "join_parts [x] = x"
| "join_parts (x # y # ys) = x @ ''/'' @ join_parts (y # ys)"

definition path_str :: "pure_path \<Rightarrow> string" where
  "path_str p = (if anchor p = [] \<and> parts p = [] then ''.'' else anchor p @ join_parts (parts p))"

text \<open>\<^verbatim>\<open>path.name\<close>: the last component, empty when there is none.\<close>

definition path_name :: "pure_path \<Rightarrow> string" where
  "path_name p = (if parts p = [] then [] else last (parts p))"

text \<open>\<^verbatim>\<open>s.rfind(c)\<close>: the index of the last occurrence, \<open>None\<close> for Python's \<open>-1\<close>.\<close>

definition rfind :: "char \<Rightarrow> string \<Rightarrow> nat option" where
  "rfind c s =
     (if c \<in> set s then Some (length s - 1 - length (takeWhile (\<lambda>x. x \<noteq> c) (rev s)))
      else None)"

text \<open>
  \<^verbatim>\<open>path.suffix\<close>:
  \<^verbatim>\<open>
  i = name.rfind('.')
  if 0 < i < len(name) - 1: return name[i:]
  else: return ''
  \<close>
\<close>

definition path_suffix :: "pure_path \<Rightarrow> string" where
  "path_suffix p =
     (let name = path_name p in
      case rfind CHR ''.'' name of
        None \<Rightarrow> []
      | Some i \<Rightarrow> if 0 < i \<and> i + 1 < length name then drop i name else [])"

text \<open>\<^verbatim>\<open>path.stem\<close>: the name without its suffix.\<close>

definition path_stem :: "pure_path \<Rightarrow> string" where
  "path_stem p =
     (let name = path_name p; suffix = path_suffix p in
      if suffix = [] then name else take (length name - length suffix) name)"

text \<open>
  \<^verbatim>\<open>path.with_suffix(suffix)\<close>, for the suffixes the code passes (\<^verbatim>\<open>''\<close>, \<^verbatim>\<open>'.npz'\<close>,
  \<^verbatim>\<open>'.json'\<close>, all of which pathlib accepts): a path with an empty name raises
  \<^verbatim>\<open>ValueError\<close>; otherwise the old suffix of the name, if any, is replaced.
\<close>

definition with_suffix :: "pure_path \<Rightarrow> string \<Rightarrow> py_error + pure_path" where
  "with_suffix p suffix =
     (let name = path_name p in
      if name = [] then Inl ValueError
      else
        (let old_suffix = path_suffix p;
             name = (if old_suffix = [] then name @ suffix
                     else take (length name - length old_suffix) name @ suffix)
         in Inr (p\<lparr>parts := butlast (parts p) @ [name]\<rparr>)))"

text \<open>
  The three lines shared by saving and loading:
  \<^verbatim>\<open>
  base = filepath.with_suffix('')
  npz_path = base.with_suffix('.npz')
  json_path = base.with_suffix('.json')
  \<close>
\<close>

definition derived_paths :: "pure_path \<Rightarrow> py_error + pure_path \<times> pure_path" where
  "derived_paths filepath =
     bind_result (with_suffix filepath []) (\<lambda>base.
     bind_result (with_suffix base ''.npz'') (\<lambda>npz_path.
     bind_result (with_suffix base ''.json'') (\<lambda>json_path.
     Inr (npz_path, json_path))))"

subsection \<open>Files\<close>

text \<open>
  The values that \<^verbatim>\<open>json\<close> can write and read back: \<^verbatim>\<open>None\<close>, booleans, integers,
  floats, strings, lists (a tuple is written as a list) and dictionaries with string
  keys, in the order of insertion and with distinct keys.
\<close>

datatype json =
    JNull
  | JBool bool
  | JInt int
  | JFloat real
  | JStr string
  | JArr "json list"
  | JObj "(string \<times> json) list"

text \<open>
  What a file holds: the named arrays of an \<^verbatim>\<open>.npz\<close> archive, a JSON document, or
  anything else. The model takes from the libraries that \<^verbatim>\<open>np.load\<close> gives back the
  arrays \<^verbatim>\<open>np.savez_compressed\<close> wrote, and \<^verbatim>\<open>json.load\<close> the value \<^verbatim>\<open>json.dump\<close> wrote.
  Directories and failures of the operating system are outside the model, so
  \<^verbatim>\<open>filepath.parent.mkdir(parents=True, exist_ok=True)\<close> changes nothing.
\<close>

datatype disk_file =
    NpzFile "(string \<times> real list) list"
  | JsonFile json
  | OtherFile

type_synonym filesystem = "pure_path \<rightharpoonup> disk_file"

text \<open>\<^verbatim>\<open>np.load(path)\<close> and \<^verbatim>\<open>json.load(f)\<close> on a file that exists.\<close>

definition np_load :: "disk_file \<Rightarrow> py_error + (string \<times> real list) list" where
  "np_load f = (case f of NpzFile arrays \<Rightarrow> Inr arrays | _ \<Rightarrow> Inl ValueError)"

definition json_load :: "disk_file \<Rightarrow> py_error + json" where
  "json_load f = (case f of JsonFile v \<Rightarrow> Inr v | _ \<Rightarrow> Inl ValueError)"

text \<open>\<^verbatim>\<open>data[key]\<close> on the loaded archive, \<^verbatim>\<open>d[key]\<close> and \<^verbatim>\<open>d.get(key, default)\<close> on a value.\<close>

definition npz_item :: "(string \<times> real list) list \<Rightarrow> string \<Rightarrow> py_error + real list" where
  "npz_item arrays key = or_raise (map_of arrays key) KeyError"

definition json_item :: "json \<Rightarrow> string \<Rightarrow> py_error + json" where
  "json_item d key =
     (case d of JObj kvs \<Rightarrow> or_raise (map_of kvs key) KeyError | _ \<Rightarrow> Inl TypeError)"

definition json_get :: "json \<Rightarrow> string \<Rightarrow> json \<Rightarrow> json" where
  "json_get d key dflt =
     (case d of
        JObj kvs \<Rightarrow> (case map_of kvs key of None \<Rightarrow> dflt | Some v \<Rightarrow> v)
      | _ \<Rightarrow> dflt)"

text \<open>
  The code calls \<^verbatim>\<open>get\<close> on \<open>json_data\<close> after \<^verbatim>\<open>json_data['preamble']\<close> has succeeded,
  so on a dictionary; the last case of \<open>json_get\<close> is never reached from it.
\<close>

text \<open>The truth value of a Python value, for \<^verbatim>\<open>metadata or {}\<close>.\<close>

definition truthy :: "json \<Rightarrow> bool" where
  "truthy v =
     (case v of
        JNull \<Rightarrow> False
      | JBool b \<Rightarrow> b
      | JInt i \<Rightarrow> i \<noteq> 0
      | JFloat x \<Rightarrow> x \<noteq> 0
      | JStr s \<Rightarrow> s \<noteq> []
      | JArr xs \<Rightarrow> xs \<noteq> []
      | JObj kvs \<Rightarrow> kvs \<noteq> [])"

text \<open>
  \<^verbatim>\<open>np.min\<close> and \<^verbatim>\<open>np.max\<close>. The code calls them on arrays it has tested to be
  non-empty.
\<close>

definition np_min :: "real list \<Rightarrow> real" where
  "np_min xs = Min (set xs)"

definition np_max :: "real list \<Rightarrow> real" where
  "np_max xs = Max (set xs)"

subsection \<open>The dictionary built by the capture\<close>

text \<open>\<^verbatim>\<open>preamble_dict\<close> of \<^verbatim>\<open>capture_waveform\<close> (lines 64 to 71), as the value that is saved.\<close>

definition preamble_dict :: "preamble \<Rightarrow> json" where
  "preamble_dict p =
     JObj [(''points'', JInt (points p)),
           (''x_increment'', JFloat (x_increment p)),
           (''x_origin'', JFloat (x_origin p)),
           (''y_increment'', JFloat (y_increment p)),
           (''y_origin'', JFloat (y_origin p)),
           (''y_reference'', JInt (y_reference p))]"

subsection \<open>save_waveform_capture\<close>

text \<open>
  The result is the file system after the two writes, next to the returned dictionary
  \<^verbatim>\<open>{'npz_path': ..., 'json_path': ...}\<close> or the exception. \<^verbatim>\<open>metadata\<close> is \<open>JNull\<close>
  when the caller passes none.
\<close>

definition save_waveform_capture ::
  "filesystem \<Rightarrow> pure_path \<Rightarrow> real list \<Rightarrow> real list \<Rightarrow> json \<Rightarrow> json \<Rightarrow>
   (py_error + (string \<times> string) list) \<times> filesystem" where
  "save_waveform_capture fs filepath time_array voltage_array preamble metadata =
     (case derived_paths filepath of
        Inl e \<Rightarrow> (Inl e, fs)
      | Inr (npz_path, json_path) \<Rightarrow>
          (let fs = fs(npz_path \<mapsto>
                     NpzFile [(''time_array'', time_array), (''voltage_array'', voltage_array)]);
               json_data = JObj
                 [(''preamble'', preamble),
                  (''metadata'', if truthy metadata then metadata else JObj []),
                  (''num_samples'', JInt (int (length voltage_array))),
                  (''time_range_ms'',
                     if length time_array > 0
                     then JArr [JFloat (np_min time_array), JFloat (np_max time_array)]
                     else JArr [JInt 0, JInt 0]),
                  (''voltage_range_v'',
                     if length voltage_array > 0
                     then JArr [JFloat (np_min voltage_array), JFloat (np_max voltage_array)]
                     else JArr [JInt 0, JInt 0])];
               fs = fs(json_path \<mapsto> JsonFile json_data)
           in (Inr [(''npz_path'', path_str npz_path), (''json_path'', path_str json_path)], fs)))"

subsection \<open>load_waveform_capture\<close>

text \<open>The dictionary that loading returns, one field for each of its seven keys.\<close>

record loaded =
  time_array :: "real list"
  voltage_array :: "real list"
  preamble :: json
  metadata :: json
  num_samples :: json
  voltage_range_v :: json
  time_range_ms :: json

text \<open>
  The message of the \<^verbatim>\<open>FileNotFoundError\<close>:
  \<^verbatim>\<open>f"Waveform files not found. Looking for:\n  {npz_path}\n  {json_path}"\<close>
\<close>

definition not_found_message :: "pure_path \<Rightarrow> pure_path \<Rightarrow> string" where
  "not_found_message npz json =
     ''Waveform files not found. Looking for:'' @ [CHR 0x0A] @ ''  '' @ path_str npz @
     [CHR 0x0A] @ ''  '' @ path_str json"

definition load_waveform_capture :: "filesystem \<Rightarrow> pure_path \<Rightarrow> py_error + loaded" where
  "load_waveform_capture fs filepath =
     bind_result (derived_paths filepath) (\<lambda>(npz_path, json_path).
     case (fs npz_path, fs json_path) of
       (Some npz_file, Some json_file) \<Rightarrow>
         bind_result (np_load npz_file) (\<lambda>data.
         bind_result (npz_item data ''time_array'') (\<lambda>t_array.
         bind_result (npz_item data ''voltage_array'') (\<lambda>v_array.
         bind_result (json_load json_file) (\<lambda>json_data.
         bind_result (json_item json_data ''preamble'') (\<lambda>pre.
         bind_result (json_item json_data ''num_samples'') (\<lambda>n.
         bind_result (json_item json_data ''voltage_range_v'') (\<lambda>v_range.
         bind_result (json_item json_data ''time_range_ms'') (\<lambda>t_range.
         Inr \<lparr>time_array = t_array, voltage_array = v_array, preamble = pre,
              metadata = json_get json_data ''metadata'' (JObj []),
              num_samples = n, voltage_range_v = v_range, time_range_ms = t_range\<rparr>))))))))
     | _ \<Rightarrow> Inl (FileNotFoundError (not_found_message npz_path json_path)))"

section \<open>An instance of the builtins, for running examples\<close>

text \<open>
  On text made of ASCII decimal digits only, \<^verbatim>\<open>int\<close> reads the decimal number (leading
  zeros allowed) and \<^verbatim>\<open>float\<close> gives the same number; ASCII bytes decode to the same
  characters. The instance answers \<open>None\<close> everywhere else, so it stands for Python only
  on such inputs; the examples use no other.
\<close>

definition digit_of :: "char \<Rightarrow> nat option" where
  "digit_of c =
     (if 48 \<le> (of_char c :: nat) \<and> (of_char c :: nat) \<le> 57
      then Some ((of_char c :: nat) - 48) else None)"

fun decimal :: "nat \<Rightarrow> string \<Rightarrow> nat option" where
  "decimal acc [] = Some acc"
| "decimal acc (c # cs) =
     (case digit_of c of None \<Rightarrow> None | Some d \<Rightarrow> decimal (10 * acc + d) cs)"

definition dec_int :: "string \<Rightarrow> int option" where
  "dec_int s = (if s = [] then None else map_option int (decimal 0 s))"

definition ascii_text :: "u8 list \<Rightarrow> string option" where
  "ascii_text bs =
     (if list_all (\<lambda>b. unat b < 128) bs then Some (map (\<lambda>b. char_of (unat b)) bs) else None)"

definition ascii_builtins :: builtins where
  "ascii_builtins =
     \<lparr>int_of_bytes = (\<lambda>bs. case ascii_text bs of None \<Rightarrow> None | Some s \<Rightarrow> dec_int s),
      int_of_str = dec_int,
      float_of_str = (\<lambda>s. map_option real_of_int (dec_int s)),
      decode_utf8 = ascii_text\<rparr>"

text \<open>The bytes of an ASCII text, as the link delivers them.\<close>

definition bytes_of :: "string \<Rightarrow> u8 list" where
  "bytes_of s = map (\<lambda>c. of_nat (of_char c)) s"

text \<open>A resource with a given script and no call made yet, and an instrument holding it.\<close>

definition fresh_visa :: "outcome list \<Rightarrow> visa" where
  "fresh_visa sc = \<lparr>timeout = 5000, encoding = ''utf-8'', calls = [], script = sc\<rparr>"

definition fresh_rigol :: "outcome list \<Rightarrow> rigol" where
  "fresh_rigol sc =
     \<lparr>verbose = 1, inst = fresh_visa sc, idn = ''RIGOL TECHNOLOGIES,DS1104Z Plus'',
      instrument_type = ''oscilloscope''\<rparr>"

section \<open>Properties of the calibration\<close>

lemma calibrate_time_length:
  "length (fst (calibrate B yi xi xo)) = length B"
  by (simp add: calibrate_def)

lemma calibrate_voltage_length:
  "length (snd (calibrate B yi xi xo)) = length B"
  by (simp add: calibrate_def)

lemma calibrate_empty: "calibrate [] yi xi xo = ([], [])"
  by (simp add: calibrate_def)

text \<open>
  Claim C1. For every raw byte sequence \<open>B\<close> of length \<open>L\<close> and every preamble, the
  calibration returns a time axis and a voltage sequence of length \<open>L\<close>, both empty when
  \<open>L = 0\<close>; at every index \<open>i < L\<close> the voltage is the sample minus the arithmetic mean
  of \<open>B\<close>, times the y increment, and the time is \<open>i\<close> times the x increment plus the
  x origin.
\<close>

theorem calibrate_spec:
  "length (fst (calibrate B yi xi xo)) = length B \<and>
   length (snd (calibrate B yi xi xo)) = length B \<and>
   (B = [] \<longrightarrow> calibrate B yi xi xo = ([], [])) \<and>
   (\<forall>i < length B.
      snd (calibrate B yi xi xo) ! i =
        (real (unat (B ! i)) - (\<Sum>b\<leftarrow>B. real (unat b)) / real (length B)) * yi \<and>
      fst (calibrate B yi xi xo) ! i = real i * xi + xo)"
proof -
  have mean: "np_mean B = (\<Sum>b\<leftarrow>B. real (unat b)) / real (length B)" if "B \<noteq> []"
  proof -
    have "real (sum_list (map unat B)) = (\<Sum>b\<leftarrow>B. real (unat b))"
      by (induction B) simp_all
    with that show ?thesis by (simp add: np_mean_def)
  qed
  have "snd (calibrate B yi xi xo) ! i =
          (real (unat (B ! i)) - (\<Sum>b\<leftarrow>B. real (unat b)) / real (length B)) * yi"
    if "i < length B" for i
  proof -
    from that have "B \<noteq> []" by auto
    with that show ?thesis by (simp add: calibrate_def mean)
  qed
  moreover have "fst (calibrate B yi xi xo) ! i = real i * xi + xo" if "i < length B" for i
    using that by (simp add: calibrate_def)
  ultimately show ?thesis
    by (simp add: calibrate_time_length calibrate_voltage_length calibrate_empty)
qed

theorem calibrate_spec_witness:
  "[10, 20 :: u8] \<noteq> [] \<and> (1::nat) < length [10, 20 :: u8] \<and>
   length (fst (calibrate [10, 20] 2 3 5)) = 2 \<and>
   length (snd (calibrate [10, 20] 2 3 5)) = 2 \<and>
   snd (calibrate [10, 20] 2 3 5) ! 1 = 10 \<and>
   fst (calibrate [10, 20] 2 3 5) ! 1 = 8"
  using calibrate_spec [of "[10, 20]" 2 3 5] by simp




section \<open>Shifting the bytes, in double precision\<close>





















section \<open>Parsing the preamble\<close>

lemma int_field_Inr:
  "int_field py fs i = Inr v \<longleftrightarrow> i < length fs \<and> int_of_str py (fs ! i) = Some v"
  by (auto simp: int_field_def py_index_def bind_result_def or_raise_def split: option.splits)

lemma float_field_Inr:
  "float_field py fs i = Inr v \<longleftrightarrow> i < length fs \<and> float_of_str py (fs ! i) = Some v"
  by (auto simp: float_field_def py_index_def bind_result_def or_raise_def split: option.splits)

lemma int_field_Inl:
  "int_field py fs i = Inl e \<longleftrightarrow>
     (if i < length fs then int_of_str py (fs ! i) = None \<and> e = ValueError else e = IndexError)"
  by (auto simp: int_field_def py_index_def bind_result_def or_raise_def split: option.splits)

lemma float_field_Inl:
  "float_field py fs i = Inl e \<longleftrightarrow>
     (if i < length fs then float_of_str py (fs ! i) = None \<and> e = ValueError else e = IndexError)"
  by (auto simp: float_field_def py_index_def bind_result_def or_raise_def split: option.splits)

lemma bind_result_Inr:
  "bind_result r f = Inr b \<longleftrightarrow> (\<exists>a. r = Inr a \<and> f a = Inr b)"
  by (cases r) (simp_all add: bind_result_def)

lemma bind_result_Inl:
  "bind_result r f = Inl e \<longleftrightarrow> r = Inl e \<or> (\<exists>a. r = Inr a \<and> f a = Inl e)"
  by (cases r) (simp_all add: bind_result_def)

lemma parse_preamble_Inr:
  "parse_preamble py reply = Inr p \<longleftrightarrow>
     (let fs = py_split CHR '','' reply in
        10 \<le> length fs \<and>
        int_of_str py (fs ! 2) = Some (points p) \<and>
        float_of_str py (fs ! 4) = Some (x_increment p) \<and>
        float_of_str py (fs ! 5) = Some (x_origin p) \<and>
        float_of_str py (fs ! 7) = Some (y_increment p) \<and>
        float_of_str py (fs ! 8) = Some (y_origin p) \<and>
        int_of_str py (fs ! 9) = Some (y_reference p))"
  by (cases p) (auto simp: parse_preamble_def Let_def bind_result_Inr int_field_Inr float_field_Inr)

lemma parse_preamble_Inl:
  "parse_preamble py reply = Inl e \<Longrightarrow> e = IndexError \<or> e = ValueError"
  by (auto simp: parse_preamble_def Let_def bind_result_Inl int_field_Inl float_field_Inl
      split: if_splits)

text \<open>
  Claim C6. For every preamble reply: when the split on commas gives at least 10 fields
  and the fields 2, 4, 5, 7, 8 and 9 parse as integer, float, float, float, float and
  integer, the result holds exactly those values; when there are fewer than 10 fields or
  one of those fields does not parse, the parsing fails (with the \<^verbatim>\<open>IndexError\<close> or
  \<^verbatim>\<open>ValueError\<close> that Python raises there) and no default value is put in its place.
\<close>

theorem parse_preamble_spec:
  assumes "fs = py_split CHR '','' reply"
  shows "(10 \<le> length fs \<and>
          int_of_str py (fs ! 2) = Some pts \<and>
          float_of_str py (fs ! 4) = Some x_inc \<and>
          float_of_str py (fs ! 5) = Some x_org \<and>
          float_of_str py (fs ! 7) = Some y_inc \<and>
          float_of_str py (fs ! 8) = Some y_org \<and>
          int_of_str py (fs ! 9) = Some y_ref \<longrightarrow>
          parse_preamble py reply =
            Inr \<lparr>points = pts, x_increment = x_inc, x_origin = x_org,
                 y_increment = y_inc, y_origin = y_org, y_reference = y_ref\<rparr>) \<and>
         (length fs < 10 \<or>
          int_of_str py (fs ! 2) = None \<or>
          float_of_str py (fs ! 4) = None \<or>
          float_of_str py (fs ! 5) = None \<or>
          float_of_str py (fs ! 7) = None \<or>
          float_of_str py (fs ! 8) = None \<or>
          int_of_str py (fs ! 9) = None \<longrightarrow>
          parse_preamble py reply = Inl IndexError \<or> parse_preamble py reply = Inl ValueError)"
proof (intro conjI impI)
  assume "10 \<le> length fs \<and>
          int_of_str py (fs ! 2) = Some pts \<and>
          float_of_str py (fs ! 4) = Some x_inc \<and>
          float_of_str py (fs ! 5) = Some x_org \<and>
          float_of_str py (fs ! 7) = Some y_inc \<and>
          float_of_str py (fs ! 8) = Some y_org \<and>
          int_of_str py (fs ! 9) = Some y_ref"
  with assms show "parse_preamble py reply =
            Inr \<lparr>points = pts, x_increment = x_inc, x_origin = x_org,
                 y_increment = y_inc, y_origin = y_org, y_reference = y_ref\<rparr>"
    by (simp add: parse_preamble_Inr)
next
  assume bad: "length fs < 10 \<or>
          int_of_str py (fs ! 2) = None \<or>
          float_of_str py (fs ! 4) = None \<or>
          float_of_str py (fs ! 5) = None \<or>
          float_of_str py (fs ! 7) = None \<or>
          float_of_str py (fs ! 8) = None \<or>
          int_of_str py (fs ! 9) = None"
  have "parse_preamble py reply \<noteq> Inr p" for p
    using bad assms by (auto simp: parse_preamble_Inr Let_def)
  then obtain e where "parse_preamble py reply = Inl e"
    by (cases "parse_preamble py reply") auto
  with parse_preamble_Inl [of py reply e]
  show "parse_preamble py reply = Inl IndexError \<or> parse_preamble py reply = Inl ValueError"
    by auto
qed

theorem parse_preamble_spec_witness:
  "length (py_split CHR '','' ''0,0,1200,1,2,3,0,4,0,127'') = 10 \<and>
   parse_preamble ascii_builtins ''0,0,1200,1,2,3,0,4,0,127'' =
     Inr \<lparr>points = 1200, x_increment = 2, x_origin = 3,
          y_increment = 4, y_origin = 0, y_reference = 127\<rparr> \<and>
   length (py_split CHR '','' ''0,0,1200'') = 3 \<and>
   parse_preamble ascii_builtins ''0,0,1200'' = Inl IndexError \<and>
   int_of_str ascii_builtins (py_split CHR '','' ''0,0,x,1,2,3,0,4,0,127'' ! 2) = None \<and>
   parse_preamble ascii_builtins ''0,0,x,1,2,3,0,4,0,127'' = Inl ValueError"
proof -
  let ?ok = "''0,0,1200,1,2,3,0,4,0,127''"
  have fields: "py_split CHR '','' ?ok =
      [''0'', ''0'', ''1200'', ''1'', ''2'', ''3'', ''0'', ''4'', ''0'', ''127'']"
    by code_simp
  have i2: "int_of_str ascii_builtins ''1200'' = Some 1200"
   and i9: "int_of_str ascii_builtins ''127'' = Some 127"
    by code_simp+
  have f4: "float_of_str ascii_builtins ''2'' = Some 2"
   and f5: "float_of_str ascii_builtins ''3'' = Some 3"
   and f7: "float_of_str ascii_builtins ''4'' = Some 4"
   and f8: "float_of_str ascii_builtins ''0'' = Some 0"
    by (simp_all add: ascii_builtins_def dec_int_def digit_of_def)
  have ok: "parse_preamble ascii_builtins ?ok =
     Inr \<lparr>points = 1200, x_increment = 2, x_origin = 3,
          y_increment = 4, y_origin = 0, y_reference = 127\<rparr>"
    using parse_preamble_spec [of "py_split CHR '','' ?ok" ?ok ascii_builtins 1200 2 3 4 0 127]
    by (simp add: fields i2 i9 f4 f5 f7 f8)
  have short: "length (py_split CHR '','' ''0,0,1200'') = 3"
    by code_simp
  have bad: "int_of_str ascii_builtins (py_split CHR '','' ''0,0,x,1,2,3,0,4,0,127'' ! 2) = None"
    by code_simp
  have e1: "parse_preamble ascii_builtins ''0,0,1200'' = Inl IndexError"
    by code_simp
  have e2: "parse_preamble ascii_builtins ''0,0,x,1,2,3,0,4,0,127'' = Inl ValueError"
    by code_simp
  from ok short bad e1 e2 fields show ?thesis by simp
qed

section \<open>The timeout of the link\<close>

lemma visa_call_timeout: "timeout (snd (visa_call c r)) = timeout r"
  by (simp add: visa_call_def split: list.splits outcome.splits)

lemma visa_write_timeout: "timeout (snd (visa_write cmd r)) = timeout r"
  using visa_call_timeout [of "Write cmd" r]
  by (auto simp: visa_write_def split: prod.splits sum.splits)

lemma visa_read_timeout: "timeout (snd (visa_read r)) = timeout r"
  using visa_call_timeout [of Read r]
  by (auto simp: visa_read_def split: prod.splits sum.splits)

lemma visa_read_raw_timeout: "timeout (snd (visa_read_raw n r)) = timeout r"
  by (simp add: visa_read_raw_def visa_call_timeout)

lemma visa_query_timeout: "timeout (snd (visa_query cmd r)) = timeout r"
  using visa_write_timeout [of cmd r] visa_read_timeout [of "snd (visa_write cmd r)"]
  by (auto simp: visa_query_def split: prod.splits sum.splits)

lemma on_inst_timeout:
  assumes "\<And>r. timeout (snd (m r)) = timeout r"
  shows "timeout (inst (snd (on_inst m self))) = timeout (inst self)"
  using assms [of "inst self"] by (auto simp: on_inst_def split: prod.splits)

lemma andthen_keeps:
  assumes "\<And>s. g (snd (m s)) = g s" and "\<And>a s. g (snd (f a s)) = g s"
  shows "g (snd (andthen m f s)) = g s"
  using assms(1) [of s] assms(2) [of _ "snd (m s)"]
  by (auto simp: andthen_def split: prod.splits sum.splits)

lemma lift_result_keeps: "g (snd (lift_result r s)) = g s"
  by (simp add: lift_result_def)

lemma rigol_write_timeout:
  "timeout (inst (snd (rigol_write cmd osc))) = timeout (inst osc)"
  unfolding rigol_write_def by (rule on_inst_timeout) (rule visa_write_timeout)

lemma rigol_query_timeout:
  "timeout (inst (snd (rigol_query cmd osc))) = timeout (inst osc)"
  unfolding rigol_query_def by (rule on_inst_timeout) (rule visa_query_timeout)

lemma try_finally_restores:
  "timeout (inst (snd (try_finally body (set_timeout t) s))) = t"
  by (simp add: try_finally_def set_timeout_def split: prod.splits)

text \<open>
  Claim C5. On every exit path of the capture (a normal return, a failure of a command
  or of the preamble, a header that does not parse, a read that fails or comes short)
  the timeout of the resource is, at the end, the value it had when the capture began.
\<close>

theorem capture_waveform_restores_timeout:
  "timeout (inst (snd (capture_waveform py osc channel))) = timeout (inst osc)"
  unfolding capture_waveform_def
  apply (rule andthen_keeps, rule rigol_write_timeout)+
  apply (rule andthen_keeps, rule rigol_query_timeout)
  apply (rule andthen_keeps, rule lift_result_keeps)
  apply (rule andthen_keeps, rule rigol_write_timeout)
  apply (simp add: Let_def try_finally_restores)
  done

section \<open>The block transfer\<close>

lemma on_inst_read_raw:
  "on_inst (visa_read_raw n) osc =
     (case script (inst osc) of
        [] \<Rightarrow>
          (Inl VisaIOError, osc\<lparr>inst := (inst osc)\<lparr>calls := calls (inst osc) @ [ReadRaw n]\<rparr>\<rparr>)
      | Raises e # rest \<Rightarrow>
          (Inl e,
           osc\<lparr>inst := (inst osc)\<lparr>calls := calls (inst osc) @ [ReadRaw n], script := rest\<rparr>\<rparr>)
      | Returns bs # rest \<Rightarrow>
          (Inr bs,
           osc\<lparr>inst := (inst osc)\<lparr>calls := calls (inst osc) @ [ReadRaw n], script := rest\<rparr>\<rparr>))"
  by (simp add: on_inst_def visa_read_raw_def visa_call_def split: list.splits outcome.splits)

lemma header_nine_digits: "header_length ascii_builtins (bytes_of ''#9000000005'') = Inr 5"
  by code_simp

lemma marker_nine_digits: "py_slice (bytes_of ''#9000000005'') 0 1 = [0x23]"
  by code_simp

text \<open>
  Claim C2, evaluated on the block \<^verbatim>\<open>#800000012ABCDEFGHIJKL\<close>, which declares \<open>d = 8\<close>
  digits and a payload of 12 bytes, over a link that returns the bytes asked for and then
  what is left. The first call of the block transfer is a read of 11 bytes for every
  header and every link, whatever \<open>d\<close> is; here the first payload byte is taken with the
  header. The code decodes 12 from the eight digits and asks for 12 bytes, of which 11
  are left, and these 11 bytes are its result. The claim has a header of \<open>2 + d = 10\<close>
  bytes and the 12 bytes after it as the payload.
\<close>

theorem header_read_is_eleven_bytes:
  "(\<exists>cs. calls (inst (snd (read_block py osc))) = calls (inst osc) @ ReadRaw 11 # cs) \<and>
   read_block ascii_builtins
     (fresh_rigol [Returns (bytes_of ''#800000012A''), Returns (bytes_of ''BCDEFGHIJKL'')]) =
   (Inr (bytes_of ''BCDEFGHIJKL''),
    (fresh_rigol []) \<lparr>inst := (fresh_visa []) \<lparr>calls := [ReadRaw 11, ReadRaw 12]\<rparr>\<rparr>)"
proof
  show "\<exists>cs. calls (inst (snd (read_block py osc))) = calls (inst osc) @ ReadRaw 11 # cs"
    by (auto simp: read_block_def andthen_def lift_result_def on_inst_read_raw
        split: list.splits outcome.splits sum.splits)
  show "read_block ascii_builtins
     (fresh_rigol [Returns (bytes_of ''#800000012A''), Returns (bytes_of ''BCDEFGHIJKL'')]) =
   (Inr (bytes_of ''BCDEFGHIJKL''),
    (fresh_rigol []) \<lparr>inst := (fresh_visa []) \<lparr>calls := [ReadRaw 11, ReadRaw 12]\<rparr>\<rparr>)"
    by code_simp
qed

text \<open>
  Claim C3 as stated fails: the header declares 5 bytes, the link delivers 3, and the
  block transfer returns these 3 bytes as a successful result.
\<close>

theorem short_payload_is_returned:
  "header_length ascii_builtins (bytes_of ''#9000000005'') = Inr 5 \<and>
   fst (read_block ascii_builtins
          (fresh_rigol [Returns (bytes_of ''#9000000005''), Returns [1, 2, 3]])) =
     Inr [1, 2, 3]"
  by code_simp

text \<open>
  Claim C3, amended. For every header that starts with the marker and declares the
  payload length \<open>N\<close>, the block transfer makes a second read on the link, asking for
  \<open>N\<close> bytes, and its result is what that read delivers, unmodified and whatever its
  length: a shorter sequence is returned as it is, and an exception of the link goes on
  to the caller.
\<close>

theorem read_block_returns_what_arrives:
  assumes "script (inst osc) = Returns header # second # rest"
      and "py_slice header 0 1 = [0x23]"
      and "header_length py header = Inr N"
  shows "calls (inst (snd (read_block py osc))) = calls (inst osc) @ [ReadRaw 11, ReadRaw N] \<and>
         script (inst (snd (read_block py osc))) = rest \<and>
         fst (read_block py osc) =
           (case second of Raises e \<Rightarrow> Inl e | Returns payload \<Rightarrow> Inr payload)"
  using assms
  by (simp add: read_block_def andthen_def lift_result_def on_inst_read_raw
      split: outcome.splits)

theorem read_block_returns_what_arrives_witness:
  "script (inst (fresh_rigol [Returns (bytes_of ''#9000000005''), Returns [7, 8, 9, 10, 11]])) =
     [Returns (bytes_of ''#9000000005''), Returns [7, 8, 9, 10, 11]] \<and>
   py_slice (bytes_of ''#9000000005'') 0 1 = [0x23] \<and>
   header_length ascii_builtins (bytes_of ''#9000000005'') = Inr 5 \<and>
   calls (inst (snd (read_block ascii_builtins
     (fresh_rigol [Returns (bytes_of ''#9000000005''), Returns [7, 8, 9, 10, 11]])))) =
     [ReadRaw 11, ReadRaw 5] \<and>
   fst (read_block ascii_builtins
     (fresh_rigol [Returns (bytes_of ''#9000000005''), Returns [7, 8, 9, 10, 11]])) =
     Inr [7, 8, 9, 10, 11]"
proof -
  let ?osc = "fresh_rigol [Returns (bytes_of ''#9000000005''), Returns [7, 8, 9, 10, 11]]"
  have sc: "script (inst ?osc) =
      Returns (bytes_of ''#9000000005'') # Returns [7, 8, 9, 10, 11] # []"
    by (simp add: fresh_rigol_def fresh_visa_def)
  have cs: "calls (inst ?osc) = []"
    by (simp add: fresh_rigol_def fresh_visa_def)
  from read_block_returns_what_arrives [OF sc marker_nine_digits header_nine_digits]
    sc cs marker_nine_digits header_nine_digits
  show ?thesis by simp
qed

section \<open>Identification of the instrument\<close>

lemma get_idn_absorbs:
  "fst (idn_query self) = Inl VisaIOError \<Longrightarrow>
   get_idn self = (Inr ''Unknown'', snd (idn_query self))"
  by (cases "idn_query self") (simp add: get_idn_def)

lemma classify_Unknown:
  "idn self = ''Unknown'' \<Longrightarrow> classify_instrument self = ''unknown''"
  by (simp add: classify_instrument_def py_upper_def upper_char_def Let_def)

text \<open>
  Claim C10. When the \<^verbatim>\<open>*IDN?\<close> exchange run by the constructor raises a
  \<^verbatim>\<open>VisaIOError\<close>, the error goes no further: \<^verbatim>\<open>get_idn\<close> returns the literal
  \<^verbatim>\<open>"Unknown"\<close>, \<^verbatim>\<open>classify_instrument\<close> then returns \<^verbatim>\<open>"unknown"\<close>, and the
  construction of the instrument object succeeds with these two values.
\<close>

theorem idn_failure_is_absorbed:
  assumes "resources resource_name = Some r"
      and "self = \<lparr>verbose = verb, inst = r\<lparr>timeout := 5000, encoding := ''utf-8''\<rparr>,
                   idn = [], instrument_type = []\<rparr>"
      and "fst (idn_query self) = Inl VisaIOError"
  shows "fst (get_idn self) = Inr ''Unknown'' \<and>
         classify_instrument (self\<lparr>idn := ''Unknown''\<rparr>) = ''unknown'' \<and>
         (\<exists>obj. RigolInstrument resources resource_name verb = Inr obj \<and>
                idn obj = ''Unknown'' \<and> instrument_type obj = ''unknown'')"
proof -
  have g: "get_idn self = (Inr ''Unknown'', snd (idn_query self))"
    using assms(3) by (rule get_idn_absorbs)
  have c: "classify_instrument (s\<lparr>idn := ''Unknown''\<rparr>) = ''unknown''" for s :: rigol
    by (rule classify_Unknown) simp
  have "RigolInstrument resources resource_name verb =
          Inr ((snd (idn_query self))\<lparr>idn := ''Unknown'', instrument_type := ''unknown''\<rparr>)"
    using assms(1) g c [of "snd (idn_query self)"]
    by (simp add: RigolInstrument_def Let_def assms(2) [symmetric])
  with g c show ?thesis by simp
qed

theorem idn_failure_is_absorbed_witness:
  "fst (idn_query \<lparr>verbose = 1,
          inst = (fresh_visa [Returns [], Raises VisaIOError])
                   \<lparr>timeout := 5000, encoding := ''utf-8''\<rparr>,
          idn = [], instrument_type = []\<rparr>) = Inl VisaIOError \<and>
   (\<exists>obj. RigolInstrument [''USB0'' \<mapsto> fresh_visa [Returns [], Raises VisaIOError]] ''USB0'' 1 =
            Inr obj \<and> idn obj = ''Unknown'' \<and> instrument_type obj = ''unknown'')"
proof -
  let ?r = "fresh_visa [Returns [], Raises VisaIOError]"
  let ?self = "\<lparr>verbose = 1, inst = ?r\<lparr>timeout := 5000, encoding := ''utf-8''\<rparr>,
                idn = [], instrument_type = []\<rparr>"
  have q: "fst (idn_query ?self) = Inl VisaIOError"
    by code_simp
  have res: "[''USB0'' \<mapsto> ?r] ''USB0'' = Some ?r"
    by simp
  from idn_failure_is_absorbed [of "[''USB0'' \<mapsto> ?r]" "''USB0''" ?r ?self 1, OF res refl q] q
  show ?thesis by simp
qed

section \<open>Saving and loading\<close>

lemma path_suffix_shorter:
  "path_suffix p \<noteq> [] \<Longrightarrow> length (path_suffix p) < length (path_name p)"
  by (auto simp: path_suffix_def Let_def split: option.splits if_splits)

lemma path_stem_nonempty: "path_name p \<noteq> [] \<Longrightarrow> path_stem p \<noteq> []"
  using path_suffix_shorter [of p] by (auto simp: path_stem_def Let_def)

lemma with_suffix_stem:
  "path_name p \<noteq> [] \<Longrightarrow>
   with_suffix p s = Inr (p\<lparr>parts := butlast (parts p) @ [path_stem p @ s]\<rparr>)"
  by (simp add: with_suffix_def path_stem_def Let_def)

lemma with_suffix_empty_name: "path_name p = [] \<Longrightarrow> with_suffix p s = Inl ValueError"
  by (simp add: with_suffix_def)

lemma path_name_replaced: "path_name (p\<lparr>parts := xs @ [n]\<rparr>) = n"
  by (simp add: path_name_def)

lemma derived_paths_Inr:
  assumes "path_name filepath \<noteq> []"
  shows "\<exists>npz js. derived_paths filepath = Inr (npz, js) \<and> npz \<noteq> js"
proof -
  let ?base = "filepath\<lparr>parts := butlast (parts filepath) @ [path_stem filepath]\<rparr>"
  have b: "with_suffix filepath [] = Inr ?base"
    using assms by (simp add: with_suffix_stem)
  have n: "path_name ?base \<noteq> []"
    using assms by (simp add: path_name_replaced path_stem_nonempty)
  let ?npz = "?base\<lparr>parts := butlast (parts ?base) @ [path_stem ?base @ ''.npz'']\<rparr>"
  let ?js = "?base\<lparr>parts := butlast (parts ?base) @ [path_stem ?base @ ''.json'']\<rparr>"
  have "derived_paths filepath = Inr (?npz, ?js)"
    unfolding derived_paths_def by (simp only: b bind_result_def sum.case with_suffix_stem [OF n])
  moreover have "parts ?npz \<noteq> parts ?js" by simp
  then have "?npz \<noteq> ?js" by metis
  ultimately show ?thesis by blast
qed

lemma derived_paths_Inl: "path_name filepath = [] \<Longrightarrow> derived_paths filepath = Inl ValueError"
  by (simp add: derived_paths_def with_suffix_empty_name bind_result_def)

text \<open>
  Claim C4 as stated fails in two places. A path with no final component, such as
  \<^verbatim>\<open>Path('.')\<close>, makes \<^verbatim>\<open>with_suffix\<close> raise \<^verbatim>\<open>ValueError\<close>, so saving does not
  succeed for every path. And a capture saved without metadata (\<^verbatim>\<open>None\<close>) is loaded with
  the empty dictionary as its metadata.
\<close>

theorem save_fails_without_name:
  "fst (save_waveform_capture Map.empty \<lparr>anchor = [], parts = []\<rparr> [1, 2] [3, 4]
          (JObj []) (JObj [])) = Inl ValueError \<and>
   load_waveform_capture
     (snd (save_waveform_capture Map.empty \<lparr>anchor = [], parts = [''cap'']\<rparr> [1, 2] [3, 4]
             (JObj []) JNull))
     \<lparr>anchor = [], parts = [''cap'']\<rparr> =
   Inr \<lparr>time_array = [1, 2], voltage_array = [3, 4], preamble = JObj [],
        metadata = JObj [], num_samples = JInt 2,
        voltage_range_v = JArr [JFloat 3, JFloat 4],
        time_range_ms = JArr [JFloat 1, JFloat 2]\<rparr>"
  by code_simp

text \<open>
  Claim C4, amended. For every capture and every path whose final component is not
  empty, saving succeeds, and loading from the same path afterwards succeeds and gives
  back the time and voltage arrays exactly, the preamble as it was, and the metadata as
  it was whenever it is a dictionary (a metadata of \<^verbatim>\<open>None\<close>, as any false value, is
  stored and loaded as the empty dictionary). The recorded sample count is the length of
  the voltage array, and the two ranges are the minimum and maximum of the arrays, or
  \<open>(0, 0)\<close> for an empty array.
\<close>

theorem save_then_load:
  assumes "path_name filepath \<noteq> []"
  shows "(\<exists>paths. fst (save_waveform_capture fs filepath t v pre meta) = Inr paths) \<and>
         load_waveform_capture (snd (save_waveform_capture fs filepath t v pre meta)) filepath =
           Inr \<lparr>time_array = t, voltage_array = v, preamble = pre,
                metadata = (if truthy meta then meta else JObj []),
                num_samples = JInt (int (length v)),
                voltage_range_v =
                  (if v = [] then JArr [JInt 0, JInt 0]
                   else JArr [JFloat (Min (set v)), JFloat (Max (set v))]),
                time_range_ms =
                  (if t = [] then JArr [JInt 0, JInt 0]
                   else JArr [JFloat (Min (set t)), JFloat (Max (set t))])\<rparr> \<and>
         (\<forall>kvs. meta = JObj kvs \<longrightarrow> (if truthy meta then meta else JObj []) = meta)"
proof -
  from derived_paths_Inr [OF assms] obtain npz js
    where d: "derived_paths filepath = Inr (npz, js)" and ne: "npz \<noteq> js"
    by blast
  show ?thesis
    using ne
    by (simp add: save_waveform_capture_def load_waveform_capture_def d Let_def
        bind_result_def np_load_def npz_item_def or_raise_def json_load_def json_item_def
        json_get_def np_min_def np_max_def truthy_def)
qed

lemma py_in_self: "py_in sub (sub @ b)"
proof (cases "sub @ b")
  case Nil
  then show ?thesis by simp
next
  case (Cons c cs)
  have "take (length sub) (sub @ b) = sub" by simp
  with Cons show ?thesis by simp
qed

lemma py_in_middle: "py_in sub (a @ sub @ b)"
proof (induction a)
  case Nil
  show ?case using py_in_self [of sub b] by simp
next
  case (Cons c a)
  then show ?case by simp
qed

text \<open>
  Claim C7. For every path from which the two file paths derive: if the array store or
  the sidecar does not exist, loading fails with \<^verbatim>\<open>FileNotFoundError\<close>, and the message
  names both expected paths; so it is when the sidecar exists and the array store does
  not, and nothing is returned from one file alone.
\<close>

theorem load_needs_both_files:
  assumes "derived_paths filepath = Inr (npz, js)"
      and "fs npz = None \<or> fs js = None"
  shows "load_waveform_capture fs filepath =
           Inl (FileNotFoundError (not_found_message npz js)) \<and>
         py_in (path_str npz) (not_found_message npz js) \<and>
         py_in (path_str js) (not_found_message npz js)"
proof -
  have "load_waveform_capture fs filepath = Inl (FileNotFoundError (not_found_message npz js))"
    using assms
    by (auto simp: load_waveform_capture_def bind_result_def split: option.splits)
  moreover have "py_in (path_str npz) (not_found_message npz js)"
    unfolding not_found_message_def
    using py_in_middle [of "path_str npz"
        "''Waveform files not found. Looking for:'' @ [CHR 0x0A] @ ''  ''"
        "[CHR 0x0A] @ ''  '' @ path_str js"]
    by (simp only: append_assoc)
  moreover have "py_in (path_str js) (not_found_message npz js)"
    unfolding not_found_message_def
    using py_in_middle [of "path_str js"
        "''Waveform files not found. Looking for:'' @ [CHR 0x0A] @ ''  '' @ path_str npz @
         [CHR 0x0A] @ ''  ''" "[]"]
    by (simp only: append_assoc append_Nil2)
  ultimately show ?thesis by simp
qed

text \<open>
  Claim C8 as stated fails: the array store holds 3 samples, the sidecar records 5, and
  loading succeeds and returns both.
\<close>

theorem load_accepts_disagreeing_count:
  "load_waveform_capture
     [\<lparr>anchor = [], parts = [''cap.npz'']\<rparr> \<mapsto>
        NpzFile [(''time_array'', [0, 1, 2]), (''voltage_array'', [5, 6, 7])],
      \<lparr>anchor = [], parts = [''cap.json'']\<rparr> \<mapsto>
        JsonFile (JObj [(''preamble'', JObj []), (''metadata'', JObj []),
                        (''num_samples'', JInt 5),
                        (''time_range_ms'', JArr [JFloat 0, JFloat 2]),
                        (''voltage_range_v'', JArr [JFloat 5, JFloat 7])])]
     \<lparr>anchor = [], parts = [''cap'']\<rparr> =
   Inr \<lparr>time_array = [0, 1, 2], voltage_array = [5, 6, 7], preamble = JObj [],
        metadata = JObj [], num_samples = JInt 5,
        voltage_range_v = JArr [JFloat 5, JFloat 7],
        time_range_ms = JArr [JFloat 0, JFloat 2]\<rparr>"
  by code_simp

text \<open>
  Claim C8, amended. Loading compares nothing between the two files. When both exist,
  the array store holds the two arrays and the sidecar is a dictionary with the keys
  \<^verbatim>\<open>preamble\<close>, \<^verbatim>\<open>num_samples\<close>, \<^verbatim>\<open>voltage_range_v\<close> and \<^verbatim>\<open>time_range_ms\<close>, loading
  succeeds and returns the arrays and the recorded sample count as they are stored,
  whether or not the count is the length of the arrays.
\<close>

theorem load_returns_files_as_stored:
  assumes "derived_paths filepath = Inr (npz, js)"
      and "fs npz = Some (NpzFile arrays)"
      and "map_of arrays ''time_array'' = Some t"
      and "map_of arrays ''voltage_array'' = Some v"
      and "fs js = Some (JsonFile (JObj kvs))"
      and "map_of kvs ''preamble'' = Some pre"
      and "map_of kvs ''num_samples'' = Some n"
      and "map_of kvs ''voltage_range_v'' = Some vr"
      and "map_of kvs ''time_range_ms'' = Some tr"
  shows "load_waveform_capture fs filepath =
           Inr \<lparr>time_array = t, voltage_array = v, preamble = pre,
                metadata = (case map_of kvs ''metadata'' of None \<Rightarrow> JObj [] | Some m \<Rightarrow> m),
                num_samples = n, voltage_range_v = vr, time_range_ms = tr\<rparr>"
  using assms
  by (simp add: load_waveform_capture_def bind_result_def np_load_def npz_item_def
      or_raise_def json_load_def json_item_def json_get_def)

theorem save_then_load_witness:
  "path_name \<lparr>anchor = ''/'', parts = [''tmp'', ''cap.dat'']\<rparr> = ''cap.dat'' \<and>
   load_waveform_capture
     (snd (save_waveform_capture Map.empty \<lparr>anchor = ''/'', parts = [''tmp'', ''cap.dat'']\<rparr>
             [0, 2] [5, 3] (JObj [(''points'', JInt 2)]) (JObj [(''channel'', JStr ''CHAN1'')])))
     \<lparr>anchor = ''/'', parts = [''tmp'', ''cap.dat'']\<rparr> =
   Inr \<lparr>time_array = [0, 2], voltage_array = [5, 3],
        preamble = JObj [(''points'', JInt 2)],
        metadata = JObj [(''channel'', JStr ''CHAN1'')],
        num_samples = JInt 2,
        voltage_range_v = JArr [JFloat 3, JFloat 5],
        time_range_ms = JArr [JFloat 0, JFloat 2]\<rparr>"
proof -
  let ?p = "\<lparr>anchor = ''/'', parts = [''tmp'', ''cap.dat'']\<rparr>"
  have n: "path_name ?p = ''cap.dat''"
    by (simp add: path_name_def)
  then have ne: "path_name ?p \<noteq> []"
    by simp
  from save_then_load [OF ne, of Map.empty "[0, 2]" "[5, 3]" "JObj [(''points'', JInt 2)]"
      "JObj [(''channel'', JStr ''CHAN1'')]"] n
  show ?thesis by (simp add: truthy_def)
qed

theorem load_needs_both_files_witness:
  "derived_paths \<lparr>anchor = [], parts = [''cap'']\<rparr> =
     Inr (\<lparr>anchor = [], parts = [''cap.npz'']\<rparr>, \<lparr>anchor = [], parts = [''cap.json'']\<rparr>) \<and>
   [\<lparr>anchor = [], parts = [''cap.json'']\<rparr> \<mapsto> JsonFile (JObj [])]
     \<lparr>anchor = [], parts = [''cap.npz'']\<rparr> = None \<and>
   load_waveform_capture [\<lparr>anchor = [], parts = [''cap.json'']\<rparr> \<mapsto> JsonFile (JObj [])]
     \<lparr>anchor = [], parts = [''cap'']\<rparr> =
   Inl (FileNotFoundError
         (''Waveform files not found. Looking for:'' @ [CHR 0x0A] @ ''  cap.npz'' @
          [CHR 0x0A] @ ''  cap.json''))"
proof -
  let ?npz = "\<lparr>anchor = [], parts = [''cap.npz'']\<rparr>"
  let ?js = "\<lparr>anchor = [], parts = [''cap.json'']\<rparr>"
  let ?fs = "[?js \<mapsto> JsonFile (JObj [])]"
  have d: "derived_paths \<lparr>anchor = [], parts = [''cap'']\<rparr> = Inr (?npz, ?js)"
    by code_simp
  have missing: "?fs ?npz = None \<or> ?fs ?js = None"
    by simp
  have msg: "not_found_message ?npz ?js =
      ''Waveform files not found. Looking for:'' @ [CHR 0x0A] @ ''  cap.npz'' @
      [CHR 0x0A] @ ''  cap.json''"
    by (simp add: not_found_message_def path_str_def)
  have gone: "?fs ?npz = None"
    by simp
  have "load_waveform_capture ?fs \<lparr>anchor = [], parts = [''cap'']\<rparr> =
          Inl (FileNotFoundError (not_found_message ?npz ?js))"
    using load_needs_both_files [OF d missing] by (rule conjunct1)
  then have l: "load_waveform_capture ?fs \<lparr>anchor = [], parts = [''cap'']\<rparr> =
          Inl (FileNotFoundError
                (''Waveform files not found. Looking for:'' @ [CHR 0x0A] @ ''  cap.npz'' @
                 [CHR 0x0A] @ ''  cap.json''))"
    by (simp only: msg)
  from d gone l show ?thesis by (intro conjI)
qed

theorem load_returns_files_as_stored_witness:
  "load_waveform_capture
     [\<lparr>anchor = [], parts = [''cap.npz'']\<rparr> \<mapsto>
        NpzFile [(''time_array'', [0, 1]), (''voltage_array'', [5, 6])],
      \<lparr>anchor = [], parts = [''cap.json'']\<rparr> \<mapsto>
        JsonFile (JObj [(''preamble'', JObj []), (''num_samples'', JInt 7),
                        (''time_range_ms'', JNull), (''voltage_range_v'', JNull)])]
     \<lparr>anchor = [], parts = [''cap'']\<rparr> =
   Inr \<lparr>time_array = [0, 1], voltage_array = [5, 6], preamble = JObj [],
        metadata = JObj [], num_samples = JInt 7,
        voltage_range_v = JNull, time_range_ms = JNull\<rparr>"
proof -
  let ?npz = "\<lparr>anchor = [], parts = [''cap.npz'']\<rparr>"
  let ?js = "\<lparr>anchor = [], parts = [''cap.json'']\<rparr>"
  let ?arrays = "[(''time_array'', [0, 1 :: real]), (''voltage_array'', [5, 6 :: real])]"
  let ?kvs = "[(''preamble'', JObj []), (''num_samples'', JInt 7),
               (''time_range_ms'', JNull), (''voltage_range_v'', JNull)]"
  let ?fs = "[?npz \<mapsto> NpzFile ?arrays, ?js \<mapsto> JsonFile (JObj ?kvs)]"
  have d: "derived_paths \<lparr>anchor = [], parts = [''cap'']\<rparr> = Inr (?npz, ?js)"
    by code_simp
  have f1: "?fs ?npz = Some (NpzFile ?arrays)" by simp
  have f2: "?fs ?js = Some (JsonFile (JObj ?kvs))" by simp
  have a1: "map_of ?arrays ''time_array'' = Some [0, 1]" by simp
  have a2: "map_of ?arrays ''voltage_array'' = Some [5, 6]" by simp
  have k1: "map_of ?kvs ''preamble'' = Some (JObj [])" by simp
  have k2: "map_of ?kvs ''num_samples'' = Some (JInt 7)" by simp
  have k3: "map_of ?kvs ''voltage_range_v'' = Some JNull" by simp
  have k4: "map_of ?kvs ''time_range_ms'' = Some JNull" by simp
  have k5: "map_of ?kvs ''metadata'' = None" by simp
  from load_returns_files_as_stored [OF d f1 a1 a2 f2 k1 k2 k3 k4]
  show ?thesis by (simp only: k5 option.case)
qed

end
